theory Spec2Isabelle
  imports Complex_Main
begin

section \<open>The syntax tree handled by the instrumenter\<close>

text \<open>
  \<^verbatim>\<open>src/main.py\<close> builds and mutates nodes of Python's \<^verbatim>\<open>ast\<close> module. The fragment
  below has every node class the source constructs (\<^verbatim>\<open>Assign\<close>, \<^verbatim>\<open>Name\<close>, \<^verbatim>\<open>Call\<close>,
  \<^verbatim>\<open>BinOp\<close>, \<^verbatim>\<open>Sub\<close>, \<^verbatim>\<open>Expr\<close>, \<^verbatim>\<open>Attribute\<close>, \<^verbatim>\<open>Str\<close>) and every node class that
  carries a statement list, which is where function definitions can sit: the function
  and class definitions, \<^verbatim>\<open>For\<close>, \<^verbatim>\<open>AsyncFor\<close>, \<^verbatim>\<open>While\<close>, \<^verbatim>\<open>If\<close>, \<^verbatim>\<open>With\<close>, \<^verbatim>\<open>AsyncWith\<close>,
  \<^verbatim>\<open>Match\<close> with its \<^verbatim>\<open>match_case\<close>, \<^verbatim>\<open>Try\<close> and \<^verbatim>\<open>TryStar\<close> with their \<^verbatim>\<open>ExceptHandler\<close>
  (\<^verbatim>\<open>Match\<close> is there from Python 3.10, \<^verbatim>\<open>TryStar\<close> from 3.11). A pattern of a
  \<^verbatim>\<open>match_case\<close> holds no statement and is kept as its text. Every other
  expression or simple statement is opaque (\<open>Other_expr\<close>, \<open>Other_stmt\<close>): no visitor
  method of the source applies to them and they hold no statements. The source needs
  both \<^verbatim>\<open>ast.Str\<close> and \<^verbatim>\<open>ast.unparse\<close>, which Python 3.9 to 3.11 have; there \<^verbatim>\<open>ast.Str\<close>
  builds a string constant. The attribute \<^verbatim>\<open>annotation\<close> that the source sets on the three
  assignment targets is not a field of \<^verbatim>\<open>Name\<close> and nothing reads it.
\<close>

datatype expr_context = Load | Store

datatype operator = Add | Sub

datatype expr =
    Name string expr_context
  | Call expr "expr list" "(string \<times> expr) list"
  | BinOp expr operator expr
  | Attribute expr string expr_context
  | Str string
  | Other_expr string

datatype stmt =
    FunctionDef string "string list" "stmt list" "expr list"
  | AsyncFunctionDef string "string list" "stmt list" "expr list"
  | ClassDef string "expr list" "stmt list" "expr list"
  | Return "expr option"
  | Assign "expr list" expr
  | For expr expr "stmt list" "stmt list"
  | AsyncFor expr expr "stmt list" "stmt list"
  | While expr "stmt list" "stmt list"
  | If expr "stmt list" "stmt list"
  | With "expr list" "stmt list"
  | AsyncWith "expr list" "stmt list"
  | Match expr "match_case list"
  | Try "stmt list" "excepthandler list" "stmt list" "stmt list"
  | TryStar "stmt list" "excepthandler list" "stmt list" "stmt list"
  | Expr expr
  | Pass
  | Other_stmt string
and excepthandler =
    ExceptHandler "expr option" "string option" "stmt list"
and match_case =
    Match_case string "expr option" "stmt list"

text \<open>\<^verbatim>\<open>ast.Module\<close>: the list of top-level statements.\<close>

type_synonym module = "stmt list"

section \<open>The probe of \<^verbatim>\<open>TimingVisitor.visit_FunctionDef\<close>\<close>

text \<open>
  \<^verbatim>\<open>list.insert(i, x)\<close> for an index \<open>i \<ge> 0\<close>: the element goes before position \<open>i\<close>,
  or at the end when \<open>i\<close> is past it.
\<close>

definition list_insert :: "nat \<Rightarrow> 'a \<Rightarrow> 'a list \<Rightarrow> 'a list" where
  "list_insert i x xs = take i xs @ x # drop i xs"

definition start_time :: stmt where
  "start_time = Assign [Name ''start_time'' Store] (Call (Name ''time'' Load) [] [])"

definition end_time :: stmt where
  "end_time = Assign [Name ''end_time'' Store] (Call (Name ''time'' Load) [] [])"

definition duration :: stmt where
  "duration = Assign [Name ''duration'' Store]
     (BinOp (Name ''end_time'' Load) Sub (Name ''start_time'' Load))"

text \<open>The source's \<^verbatim>\<open>print_statement\<close> (the name is a command of Isabelle, hence \<open>print_stmt\<close>).\<close>

definition print_stmt :: "string \<Rightarrow> stmt" where
  "print_stmt name = Expr
     (Call (Attribute (Name ''print'' Load) ''print'' Load)
        [Str (''Function '' @ name @ '' took: ''), Name ''duration'' Load] [])"

text \<open>
  The four \<^verbatim>\<open>node.body.insert(0, _)\<close> calls, in the order of the source (lines 110 to 113).
  The method returns the node without calling \<^verbatim>\<open>generic_visit\<close> on it.
\<close>

definition visit_FunctionDef :: "string \<Rightarrow> string list \<Rightarrow> stmt list \<Rightarrow> expr list \<Rightarrow> stmt" where
  "visit_FunctionDef name args body decorator_list =
     (let body1 = list_insert 0 (print_stmt name) body;
          body2 = list_insert 0 duration body1;
          body3 = list_insert 0 end_time body2;
          body4 = list_insert 0 start_time body3
      in FunctionDef name args body4 decorator_list)"

text \<open>
  \<^verbatim>\<open>NodeTransformer.visit\<close>: a \<^verbatim>\<open>FunctionDef\<close> node goes to \<open>visit_FunctionDef\<close>; any other
  node goes to \<^verbatim>\<open>generic_visit\<close>, which visits the node's children and keeps the node.
  Expressions hold no statements and no visitor method rewrites them, so they stay as
  they are.
\<close>

fun visit :: "stmt \<Rightarrow> stmt"
  and visit_handler :: "excepthandler \<Rightarrow> excepthandler"
  and visit_case :: "match_case \<Rightarrow> match_case" where
  "visit (FunctionDef name args body decorator_list) =
     visit_FunctionDef name args body decorator_list"
| "visit (AsyncFunctionDef name args body decorator_list) =
     AsyncFunctionDef name args (map visit body) decorator_list"
| "visit (ClassDef name bases body decorator_list) =
     ClassDef name bases (map visit body) decorator_list"
| "visit (Return v) = Return v"
| "visit (Assign targets v) = Assign targets v"
| "visit (For target iter body orelse) = For target iter (map visit body) (map visit orelse)"
| "visit (AsyncFor target iter body orelse) =
     AsyncFor target iter (map visit body) (map visit orelse)"
| "visit (While test body orelse) = While test (map visit body) (map visit orelse)"
| "visit (If test body orelse) = If test (map visit body) (map visit orelse)"
| "visit (With items body) = With items (map visit body)"
| "visit (AsyncWith items body) = AsyncWith items (map visit body)"
| "visit (Match subject cases) = Match subject (map visit_case cases)"
| "visit (Try body handlers orelse finalbody) =
     Try (map visit body) (map visit_handler handlers) (map visit orelse) (map visit finalbody)"
| "visit (TryStar body handlers orelse finalbody) =
     TryStar (map visit body) (map visit_handler handlers) (map visit orelse)
       (map visit finalbody)"
| "visit (Expr e) = Expr e"
| "visit Pass = Pass"
| "visit (Other_stmt s) = Other_stmt s"
| "visit_handler (ExceptHandler type name body) = ExceptHandler type name (map visit body)"
| "visit_case (Match_case pattern guard body) = Match_case pattern guard (map visit body)"

text \<open>\<^verbatim>\<open>TimingVisitor().visit(tree)\<close> on the \<^verbatim>\<open>Module\<close> node.\<close>

definition visit_Module :: "module \<Rightarrow> module" where
  "visit_Module tree = map visit tree"

section \<open>Exceptions, the logger and the file system\<close>

text \<open>
  The exception classes the source names in its handlers, the one that the standard
  library raises on a bad argument combination, and a class for every other exception.
\<close>

datatype exn =
    FileNotFoundError string
  | SyntaxError string
  | ValueError string
  | CalledProcessError int "string list" string
  | Other_exception string

text \<open>
  A Python float as \<^verbatim>\<open>argparse\<close> with \<^verbatim>\<open>type=float\<close> can deliver it: a finite value,
  an infinity or a NaN. Only its comparisons with 0 and 1 are used.
\<close>

datatype pyfloat = Finite real | PosInf | NegInf | NaN

fun float_le :: "pyfloat \<Rightarrow> pyfloat \<Rightarrow> bool" where
  "float_le NaN y = False"
| "float_le x NaN = False"
| "float_le NegInf y = True"
| "float_le x PosInf = True"
| "float_le PosInf y = False"
| "float_le x NegInf = False"
| "float_le (Finite a) (Finite b) = (a \<le> b)"

text \<open>One constructor for each \<^verbatim>\<open>logging\<close> call of the source, holding the values it formats.\<close>

datatype level = INFO | ERROR

datatype message =
    Missing_dependencies "string list"
  | File_not_found string
  | Error_reading_file exn
  | Instrumented_code_written_to string
  | Error_writing_instrumented_code exn
  | Instrumented_file_not_found string
  | Running_iteration int int
  | Error_during_execution exn
  | Stderr string
  | Unexpected_error_during_execution exn
  | Analysis_completed_results_written_to string
  | Error_writing_to_output_file exn
  | Target_file_not_found string
  | Number_of_iterations_must_be_greater_than_0
  | Threshold_must_be_between_0_and_1
  | Starting_timing_attack_analysis_on string
  | Number_of_iterations int
  | Threshold pyfloat
  | Output_file string
  | Failed_to_instrument_code_Exiting
  | Timing_attack_analysis_completed

text \<open>What the program does to the operating system, in order.\<close>

datatype io_event =
    Stat string
  | Open_r string
  | Open_w string
  | Spawn "string list"

text \<open>
  The state the program runs in: the regular files with their text, the paths whose
  opening for reading or for writing raises (and what), the log records emitted so far
  and the trace of system calls. Paths are POSIX paths. A file that has been opened is
  read and written without error.
\<close>

record world =
  files :: "string \<rightharpoonup> string"
  read_fault :: "string \<rightharpoonup> exn"
  write_fault :: "string \<rightharpoonup> exn"
  log :: "(level \<times> message) list"
  io :: "io_event list"

definition logging :: "level \<Rightarrow> message \<Rightarrow> world \<Rightarrow> world" where
  "logging l m w = w\<lparr>log := log w @ [(l, m)]\<rparr>"

definition trace :: "io_event \<Rightarrow> world \<Rightarrow> world" where
  "trace e w = w\<lparr>io := io w @ [e]\<rparr>"

text \<open>\<^verbatim>\<open>os.path.exists\<close>.\<close>

definition path_exists :: "string \<Rightarrow> world \<Rightarrow> bool \<times> world" where
  "path_exists p w = (files w p \<noteq> None, trace (Stat p) w)"

text \<open>\<^verbatim>\<open>with open(p, "r") as f: f.read()\<close>.\<close>

definition open_read :: "string \<Rightarrow> world \<Rightarrow> (exn + string) \<times> world" where
  "open_read p w =
     (let w1 = trace (Open_r p) w in
      case read_fault w p of
        Some e \<Rightarrow> (Inl e, w1)
      | None \<Rightarrow>
          (case files w p of
             None \<Rightarrow> (Inl (FileNotFoundError p), w1)
           | Some text \<Rightarrow> (Inr text, w1)))"

text \<open>\<^verbatim>\<open>open(p, "w")\<close>: the file is created, or truncated when it is there.\<close>

definition open_write :: "string \<Rightarrow> world \<Rightarrow> (exn + unit) \<times> world" where
  "open_write p w =
     (let w1 = trace (Open_w p) w in
      case write_fault w p of
        Some e \<Rightarrow> (Inl e, w1)
      | None \<Rightarrow> (Inr (), w1\<lparr>files := (files w1)(p \<mapsto> [])\<rparr>))"

text \<open>\<^verbatim>\<open>f.write(text)\<close> on a file open for writing: the text goes after what has been written.\<close>

definition file_write :: "string \<Rightarrow> string \<Rightarrow> world \<Rightarrow> world" where
  "file_write p text w =
     w\<lparr>files := (files w)(p \<mapsto> (case files w p of None \<Rightarrow> [] | Some old \<Rightarrow> old) @ text)\<rparr>"

section \<open>\<^verbatim>\<open>os.path.splitext\<close>\<close>

text \<open>
  The source names the artifact with \<^verbatim>\<open>os.path.splitext(filename)[0]\<close>. This is the
  library's \<^verbatim>\<open>genericpath._splitext(p, '/', None, '.')\<close>: \<^verbatim>\<open>rfind\<close> gives the last index
  of a character or \<open>-1\<close>, and the loop skips the dots that begin the file name.
\<close>

fun rfind_from :: "char \<Rightarrow> string \<Rightarrow> int \<Rightarrow> int \<Rightarrow> int" where
  "rfind_from c [] i found = found"
| "rfind_from c (x # xs) i found = rfind_from c xs (i + 1) (if x = c then i else found)"

definition rfind :: "string \<Rightarrow> char \<Rightarrow> int" where
  "rfind p c = rfind_from c p 0 (- 1)"

function splitext_loop :: "string \<Rightarrow> nat \<Rightarrow> nat \<Rightarrow> (string \<times> string) option" where
  "splitext_loop p filenameIndex dotIndex =
     (if filenameIndex < dotIndex then
        (if take 1 (drop filenameIndex p) \<noteq> ''.''
         then Some (take dotIndex p, drop dotIndex p)
         else splitext_loop p (filenameIndex + 1) dotIndex)
      else None)"
  by pat_completeness auto
termination
  by (relation "measure (\<lambda>(p, filenameIndex, dotIndex). dotIndex - filenameIndex)") auto

declare splitext_loop.simps [simp del]

definition splitext :: "string \<Rightarrow> string \<times> string" where
  "splitext p =
     (let sepIndex = rfind p (CHR ''/'');
          dotIndex = rfind p (CHR ''.'')
      in if dotIndex > sepIndex then
           (case splitext_loop p (nat (sepIndex + 1)) (nat dotIndex) of
              Some r \<Rightarrow> r
            | None \<Rightarrow> (p, []))
         else (p, []))"

section \<open>The interpreter's services\<close>

text \<open>
  What the source gets from the Python installation and the machine, taken as parameters:
  \<^verbatim>\<open>ast.parse\<close> (a tree, or the exception it raises), \<^verbatim>\<open>ast.unparse\<close>, what a child process
  started with an argument vector does in a given state (\<open>None\<close>: the executable cannot be
  started; otherwise its return code, standard output and standard error), and whether
  \<^verbatim>\<open>__import__\<close> finds a module.
\<close>

record platform =
  ast_parse :: "string \<Rightarrow> exn + module"
  ast_unparse :: "module \<Rightarrow> string"
  child :: "string list \<Rightarrow> world \<Rightarrow> (int \<times> string \<times> string) option"
  importable :: "string \<Rightarrow> bool"

section \<open>\<^verbatim>\<open>subprocess.run\<close>\<close>

text \<open>
  The value of a \<^verbatim>\<open>stdout=\<close> or \<^verbatim>\<open>stderr=\<close> argument: \<^verbatim>\<open>subprocess.PIPE\<close> or a file object
  open for writing (named by its path). \<open>None\<close> is the argument left out.
\<close>

datatype redirect = PIPE | File string

record completed_process =
  returncode :: int
  stdout :: "string option"
  stderr :: "string option"

text \<open>
  \<^verbatim>\<open>subprocess.run(argv, check=, capture_output=, text=, stdout=, stderr=)\<close> of the standard
  library, in the order of its body: with \<^verbatim>\<open>capture_output\<close> it refuses a \<^verbatim>\<open>stdout\<close> or
  \<^verbatim>\<open>stderr\<close> argument with a \<^verbatim>\<open>ValueError\<close> and otherwise sets both to \<^verbatim>\<open>PIPE\<close>; it starts the
  child and waits for it; a stream sent to a file is written there, a piped one is
  returned; with \<^verbatim>\<open>check\<close> a non-zero return code raises \<^verbatim>\<open>CalledProcessError\<close>.
  \<^verbatim>\<open>text\<close> only selects decoded strings.
\<close>

definition send :: "redirect option \<Rightarrow> string \<Rightarrow> world \<Rightarrow> world" where
  "send r out w = (case r of Some (File p) \<Rightarrow> file_write p out w | _ \<Rightarrow> w)"

definition captured :: "redirect option \<Rightarrow> string \<Rightarrow> string option" where
  "captured r out = (case r of Some PIPE \<Rightarrow> Some out | _ \<Rightarrow> None)"

definition subprocess_run ::
  "platform \<Rightarrow> string list \<Rightarrow> bool \<Rightarrow> bool \<Rightarrow> bool \<Rightarrow> redirect option \<Rightarrow> redirect option
     \<Rightarrow> world \<Rightarrow> (exn + completed_process) \<times> world" where
  "subprocess_run pf argv check capture_output text stdout_arg stderr_arg w =
     (if capture_output \<and> (stdout_arg \<noteq> None \<or> stderr_arg \<noteq> None) then
        (Inl (ValueError ''stdout and stderr arguments may not be used with capture_output.''), w)
      else
        (let out_to = (if capture_output then Some PIPE else stdout_arg);
             err_to = (if capture_output then Some PIPE else stderr_arg);
             w1 = trace (Spawn argv) w
         in case child pf argv w of
              None \<Rightarrow> (Inl (FileNotFoundError (case argv of [] \<Rightarrow> [] | a # _ \<Rightarrow> a)), w1)
            | Some (rc, out, err) \<Rightarrow>
                (let w2 = send err_to err (send out_to out w1) in
                 if check \<and> rc \<noteq> 0
                 then (Inl (CalledProcessError rc argv (case captured err_to err of None \<Rightarrow> [] | Some e \<Rightarrow> e)), w2)
                 else (Inr \<lparr>returncode = rc, stdout = captured out_to out,
                             stderr = captured err_to err\<rparr>, w2))))"

section \<open>\<^verbatim>\<open>check_dependencies\<close>\<close>

text \<open>
  The loop over the four tools: a tool is missing when it cannot be started, or when its
  \<^verbatim>\<open>--version\<close> run fails and the module of that name cannot be imported.
\<close>

fun check_dependencies_loop ::
  "platform \<Rightarrow> string list \<Rightarrow> string list \<Rightarrow> world \<Rightarrow> string list \<times> world" where
  "check_dependencies_loop pf [] missing_dependencies w = (missing_dependencies, w)"
| "check_dependencies_loop pf (dep # deps) missing_dependencies w =
     (case subprocess_run pf [dep, ''--version''] True True False None None w of
        (Inl (FileNotFoundError _), w1) \<Rightarrow>
          check_dependencies_loop pf deps (missing_dependencies @ [dep]) w1
      | (Inl _, w1) \<Rightarrow>
          (if importable pf dep
           then check_dependencies_loop pf deps missing_dependencies w1
           else check_dependencies_loop pf deps (missing_dependencies @ [dep]) w1)
      | (Inr _, w1) \<Rightarrow> check_dependencies_loop pf deps missing_dependencies w1)"

definition check_dependencies :: "platform \<Rightarrow> world \<Rightarrow> bool \<times> world" where
  "check_dependencies pf w =
     (case check_dependencies_loop pf [''bandit'', ''flake8'', ''pylint'', ''pyre-check''] [] w of
        (missing_dependencies, w1) \<Rightarrow>
          if missing_dependencies \<noteq> []
          then (False, logging ERROR (Missing_dependencies missing_dependencies) w1)
          else (True, w1))"

section \<open>\<^verbatim>\<open>instrument_code\<close>\<close>

text \<open>
  A call either returns a value or leaves through an exception that nothing in the
  function catches.
\<close>

datatype 'a outcome = Returned 'a | Raised exn

text \<open>
  As in the source: the two handlers around the read; \<^verbatim>\<open>ast.parse\<close> outside every
  \<^verbatim>\<open>try\<close>; the visitor; the artifact's name; the handler around the two writes.
  \<^verbatim>\<open>ast.fix_missing_locations\<close> only fills in line numbers, which the tree here does not
  have.
\<close>

definition instrument_code :: "platform \<Rightarrow> string \<Rightarrow> world \<Rightarrow> string option outcome \<times> world" where
  "instrument_code pf filename w =
     (case open_read filename w of
        (Inl (FileNotFoundError _), w1) \<Rightarrow>
          (Returned None, logging ERROR (File_not_found filename) w1)
      | (Inl e, w1) \<Rightarrow>
          (Returned None, logging ERROR (Error_reading_file e) w1)
      | (Inr code, w1) \<Rightarrow>
          (case ast_parse pf code of
             Inl e \<Rightarrow> (Raised e, w1)
           | Inr tree \<Rightarrow>
               (let instrumented_tree = visit_Module tree;
                    instrumented_code = ast_unparse pf instrumented_tree;
                    instrumented_filename = fst (splitext filename) @ ''_instrumented.py''
                in case open_write instrumented_filename w1 of
                     (Inl e, w2) \<Rightarrow>
                       (Returned None, logging ERROR (Error_writing_instrumented_code e) w2)
                   | (Inr _, w2) \<Rightarrow>
                       (let w3 = file_write instrumented_filename (''import time'' @ [CHR 0x0A]) w2;
                            w4 = file_write instrumented_filename instrumented_code w3
                        in (Returned (Some instrumented_filename),
                            logging INFO (Instrumented_code_written_to instrumented_filename) w4)))))"

section \<open>\<^verbatim>\<open>run_analysis\<close>\<close>

text \<open>
  The body of the \<^verbatim>\<open>for\<close> loop over \<^verbatim>\<open>range(iterations)\<close>, with the indices still to run.
  The flag says whether the loop ran to its end (\<open>True\<close>) or left through one of the two
  \<^verbatim>\<open>return\<close> statements of the handlers (\<open>False\<close>).
\<close>

fun run_iterations ::
  "platform \<Rightarrow> string \<Rightarrow> int \<Rightarrow> string \<Rightarrow> int list \<Rightarrow> world \<Rightarrow> bool \<times> world" where
  "run_iterations pf instrumented_file iterations output_file [] w = (True, w)"
| "run_iterations pf instrumented_file iterations output_file (i # rest) w =
     (let w1 = logging INFO (Running_iteration (i + 1) iterations) w in
      case subprocess_run pf [''python'', instrumented_file] False True True
             (Some (File output_file)) (Some PIPE) w1 of
        (Inl (CalledProcessError rc argv err), w2) \<Rightarrow>
          (False, logging ERROR (Stderr err)
                    (logging ERROR (Error_during_execution (CalledProcessError rc argv err)) w2))
      | (Inl e, w2) \<Rightarrow>
          (False, logging ERROR (Unexpected_error_during_execution e) w2)
      | (Inr _, w2) \<Rightarrow>
          run_iterations pf instrumented_file iterations output_file rest w2)"

text \<open>\<^verbatim>\<open>range(n)\<close>: empty when \<open>n \<le> 0\<close>.\<close>

definition range :: "int \<Rightarrow> int list" where
  "range n = map int [0..<nat n]"

text \<open>The function has no \<^verbatim>\<open>return\<close> with a value: all it gives back is the state.\<close>

definition run_analysis ::
  "platform \<Rightarrow> string \<Rightarrow> int \<Rightarrow> pyfloat \<Rightarrow> string \<Rightarrow> world \<Rightarrow> world" where
  "run_analysis pf instrumented_file iterations threshold output_file w =
     (case path_exists instrumented_file w of
        (False, w1) \<Rightarrow> logging ERROR (Instrumented_file_not_found instrumented_file) w1
      | (True, w1) \<Rightarrow>
          (case open_write output_file w1 of
             (Inl e, w2) \<Rightarrow> logging ERROR (Error_writing_to_output_file e) w2
           | (Inr _, w2) \<Rightarrow>
               (case run_iterations pf instrumented_file iterations output_file
                       (range iterations) w2 of
                  (False, w3) \<Rightarrow> w3
                | (True, w3) \<Rightarrow>
                    logging INFO (Analysis_completed_results_written_to output_file) w3)))"

section \<open>\<^verbatim>\<open>main\<close>\<close>

text \<open>The parsed command line (\<open>output_opt\<close> is \<^verbatim>\<open>args.output\<close>).\<close>

record args =
  target_file :: string
  iterations :: int
  threshold :: pyfloat
  output_opt :: string
  dependency_check :: bool

text \<open>
  How the process ends: \<^verbatim>\<open>sys.exit(n)\<close>, the end of \<^verbatim>\<open>main\<close>, or an exception that
  nothing catches (the interpreter prints the traceback and the status is 1).
\<close>

datatype ending = Exit int | Finished | Uncaught exn

fun exit_status :: "ending \<Rightarrow> int" where
  "exit_status (Exit n) = n"
| "exit_status Finished = 0"
| "exit_status (Uncaught e) = 1"

text \<open>\<^verbatim>\<open>not instrumented_file\<close>: true of \<^verbatim>\<open>None\<close> and of the empty string.\<close>

fun falsy :: "string option \<Rightarrow> bool" where
  "falsy None = True"
| "falsy (Some s) = (s = [])"

definition main :: "platform \<Rightarrow> args \<Rightarrow> world \<Rightarrow> ending \<times> world" where
  "main pf a w =
     (case path_exists (target_file a) w of
        (False, w1) \<Rightarrow> (Exit 1, logging ERROR (Target_file_not_found (target_file a)) w1)
      | (True, w1) \<Rightarrow>
          if iterations a \<le> 0 then
            (Exit 1, logging ERROR Number_of_iterations_must_be_greater_than_0 w1)
          else if \<not> (float_le (Finite 0) (threshold a) \<and> float_le (threshold a) (Finite 1)) then
            (Exit 1, logging ERROR Threshold_must_be_between_0_and_1 w1)
          else
            (case (if dependency_check a then check_dependencies pf w1 else (True, w1)) of
               (False, w2) \<Rightarrow> (Exit 1, w2)
             | (True, w2) \<Rightarrow>
                 (let w3 = logging INFO (Output_file (output_opt a))
                            (logging INFO (Threshold (threshold a))
                              (logging INFO (Number_of_iterations (iterations a))
                                (logging INFO (Starting_timing_attack_analysis_on (target_file a)) w2)))
                  in case instrument_code pf (target_file a) w3 of
                       (Raised e, w4) \<Rightarrow> (Uncaught e, w4)
                     | (Returned instrumented_file, w4) \<Rightarrow>
                         if falsy instrumented_file then
                           (Exit 1, logging ERROR Failed_to_instrument_code_Exiting w4)
                         else
                           (let w5 = run_analysis pf (case instrumented_file of Some f \<Rightarrow> f | None \<Rightarrow> [])
                                       (iterations a) (threshold a) (output_opt a) w4
                            in (Finished, logging INFO Timing_attack_analysis_completed w5)))))"

section \<open>What the claims speak of\<close>

text \<open>The four statements of a probe, in the order they are to stand in a body.\<close>

definition probe :: "string \<Rightarrow> stmt list" where
  "probe name = [start_time, end_time, duration, print_stmt name]"

text \<open>
  Every \<^verbatim>\<open>FunctionDef\<close> node of a tree, at any depth, has a body that begins with its
  probe.
\<close>

fun all_probed :: "stmt \<Rightarrow> bool"
  and all_probed_handler :: "excepthandler \<Rightarrow> bool"
  and all_probed_case :: "match_case \<Rightarrow> bool" where
  "all_probed (FunctionDef name args body decorator_list) =
     (take 4 body = probe name \<and> list_all all_probed body)"
| "all_probed (AsyncFunctionDef name args body decorator_list) = list_all all_probed body"
| "all_probed (ClassDef name bases body decorator_list) = list_all all_probed body"
| "all_probed (Return v) = True"
| "all_probed (Assign targets v) = True"
| "all_probed (For target iter body orelse) =
     (list_all all_probed body \<and> list_all all_probed orelse)"
| "all_probed (AsyncFor target iter body orelse) =
     (list_all all_probed body \<and> list_all all_probed orelse)"
| "all_probed (While test body orelse) =
     (list_all all_probed body \<and> list_all all_probed orelse)"
| "all_probed (If test body orelse) =
     (list_all all_probed body \<and> list_all all_probed orelse)"
| "all_probed (With items body) = list_all all_probed body"
| "all_probed (AsyncWith items body) = list_all all_probed body"
| "all_probed (Match subject cases) = list_all all_probed_case cases"
| "all_probed (Try body handlers orelse finalbody) =
     (list_all all_probed body \<and> list_all all_probed_handler handlers \<and>
      list_all all_probed orelse \<and> list_all all_probed finalbody)"
| "all_probed (TryStar body handlers orelse finalbody) =
     (list_all all_probed body \<and> list_all all_probed_handler handlers \<and>
      list_all all_probed orelse \<and> list_all all_probed finalbody)"
| "all_probed (Expr e) = True"
| "all_probed Pass = True"
| "all_probed (Other_stmt s) = True"
| "all_probed_handler (ExceptHandler type name body) = list_all all_probed body"
| "all_probed_case (Match_case pattern guard body) = list_all all_probed body"

text \<open>
  The artifact's name in the words of the specification:
  \<^verbatim>\<open><original-base>_instrumented<original-extension>\<close>.
\<close>

definition spec_artifact_name :: "string \<Rightarrow> string" where
  "spec_artifact_name filename =
     fst (splitext filename) @ ''_instrumented'' @ snd (splitext filename)"






text \<open>The processes started, among the system calls of a trace.\<close>

fun spawns :: "io_event list \<Rightarrow> string list list" where
  "spawns [] = []"
| "spawns (Spawn argv # es) = argv # spawns es"
| "spawns (e # es) = spawns es"

text \<open>The message of the \<^verbatim>\<open>ValueError\<close> that \<open>subprocess_run\<close> raises.\<close>

definition capture_conflict :: exn where
  "capture_conflict =
     ValueError ''stdout and stderr arguments may not be used with capture_output.''"

subsection \<open>A concrete run\<close>

text \<open>
  A target \<^verbatim>\<open>t.py\<close> holding \<^verbatim>\<open>def f(): pass\<close>, the same text under the name \<^verbatim>\<open>a.txt\<close>,
  and a file \<^verbatim>\<open>bad.py\<close> that does not parse. The parser and the unparser are given on
  these texts as Python gives them; the child process of the artifact defines \<open>f\<close>,
  prints nothing and returns 0.
\<close>

definition example_tree :: module where
  "example_tree = [FunctionDef ''f'' [] [Pass] []]"

definition example_unparsed :: string where
  "example_unparsed =
     ''def f():'' @ [CHR 0x0A] @
     ''    start_time = time()'' @ [CHR 0x0A] @
     ''    end_time = time()'' @ [CHR 0x0A] @
     ''    duration = end_time - start_time'' @ [CHR 0x0A] @
     ''    print.print('' @ [CHR 0x27] @ ''Function f took: '' @ [CHR 0x27] @ '', duration)'' @ [CHR 0x0A] @
     ''    pass''"

definition example_platform :: platform where
  "example_platform =
     \<lparr>ast_parse = (\<lambda>code. if code = ''def f(): pass'' then Inr example_tree
                            else Inl (SyntaxError ''invalid syntax'')),
      ast_unparse = (\<lambda>tree. if tree = visit_Module example_tree then example_unparsed else []),
      child = (\<lambda>argv w. Some (0, [], [])),
      importable = (\<lambda>m. False)\<rparr>"

definition example_world :: world where
  "example_world =
     \<lparr>files = [''t.py'' \<mapsto> ''def f(): pass'', ''a.txt'' \<mapsto> ''def f(): pass'',
               ''bad.py'' \<mapsto> ''def f(:''],
      read_fault = Map.empty,
      write_fault = Map.empty,
      log = [],
      io = []\<rparr>"

definition example_args :: args where
  "example_args =
     \<lparr>target_file = ''t.py'', iterations = 3, threshold = Finite (1 / 20),
      output_opt = ''timing_analysis.log'', dependency_check = False\<rparr>"

section \<open>Lemmas on the path functions\<close>

lemma rfind_from_ge: "found < i \<Longrightarrow> found \<le> rfind_from c xs i found"
proof (induction xs arbitrary: i found)
  case Nil
  then show ?case by simp
next
  case (Cons x xs)
  have "(if x = c then i else found) < i + 1" using Cons.prems by simp
  from Cons.IH [OF this] show ?case using Cons.prems by (simp split: if_splits)
qed

lemma rfind_from_last:
  "found < i \<Longrightarrow> k < length xs \<Longrightarrow> rfind_from c xs i found < i + int k \<Longrightarrow> xs ! k \<noteq> c"
proof (induction xs arbitrary: i found k)
  case Nil
  then show ?case by simp
next
  case (Cons x xs)
  let ?f = "if x = c then i else found"
  have lt: "?f < i + 1" using Cons.prems(1) by simp
  show ?case
  proof (cases k)
    case 0
    have "?f \<le> rfind_from c xs (i + 1) ?f" by (rule rfind_from_ge [OF lt])
    with Cons.prems(3) 0 show ?thesis by (auto split: if_splits)
  next
    case (Suc j)
    with Cons.prems have "j < length xs" and "rfind_from c xs (i + 1) ?f < (i + 1) + int j"
      by simp_all
    from Cons.IH [OF lt this] Suc show ?thesis by simp
  qed
qed

lemma rfind_drop: "rfind p c < int d \<Longrightarrow> c \<notin> set (drop d p)"
proof
  assume lt: "rfind p c < int d" and "c \<in> set (drop d p)"
  then obtain j where j: "j < length (drop d p)" "drop d p ! j = c"
    by (auto simp: in_set_conv_nth)
  then have k: "d + j < length p" "p ! (d + j) = c" by auto
  have "rfind_from c p 0 (- 1) < 0 + int (d + j)" using lt by (simp add: rfind_def)
  from rfind_from_last [OF _ k(1) this] k(2) show False by simp
qed

lemma splitext_loop_Some:
  "splitext_loop p i d = Some r \<Longrightarrow> r = (take d p, drop d p)"
proof (induction p i d rule: splitext_loop.induct)
  case (1 p filenameIndex dotIndex)
  then show ?case
    by (subst (asm) (2) splitext_loop.simps) (auto split: if_splits)
qed

lemma splitext_join: "fst (splitext p) @ snd (splitext p) = p"
  by (auto simp: splitext_def Let_def split: option.splits dest: splitext_loop_Some)

lemma splitext_ext_no_sep: "CHR ''/'' \<notin> set (snd (splitext p))"
proof (cases "rfind p (CHR ''/'') < rfind p (CHR ''.'')")
  case True
  have "- 1 \<le> rfind p (CHR ''/'')" unfolding rfind_def by (rule rfind_from_ge) simp
  with True have "rfind p (CHR ''/'') < int (nat (rfind p (CHR ''.'')))" by simp
  then have "CHR ''/'' \<notin> set (drop (nat (rfind p (CHR ''.''))) p)" by (rule rfind_drop)
  with True show ?thesis
    by (auto simp: splitext_def Let_def split: option.splits dest: splitext_loop_Some)
next
  case False
  then show ?thesis by (simp add: splitext_def Let_def)
qed

lemma splitext_t_py: "splitext ''t.py'' = (''t'', ''.py'')"
  by (simp add: splitext_def rfind_def splitext_loop.simps)

lemma splitext_a_txt: "splitext ''a.txt'' = (''a'', ''.txt'')"
  by (simp add: splitext_def rfind_def splitext_loop.simps)

section \<open>Lemmas on the operations\<close>

lemma spawns_append: "spawns (es @ fs) = spawns es @ spawns fs"
  by (induction es rule: spawns.induct) simp_all

lemma range_pos: "0 < n \<Longrightarrow> range n = 0 # map int [1..<nat n]"
  by (simp add: range_def upt_conv_Cons)

lemma subprocess_run_conflict:
  "subprocess_run pf argv check True text (Some r) err w = (Inl capture_conflict, w)"
  by (simp add: subprocess_run_def capture_conflict_def)

lemma run_iterations_first:
  "run_iterations pf f n out (i # rest) w =
     (False, logging ERROR (Unexpected_error_during_execution capture_conflict)
               (logging INFO (Running_iteration (i + 1) n) w))"
  by (simp add: subprocess_run_conflict capture_conflict_def)

lemma run_analysis_first_iteration:
  assumes "files w f \<noteq> None" and "0 < n" and "write_fault w out = None"
  shows "run_analysis pf f n t out w =
     w\<lparr>files := (files w)(out \<mapsto> []),
       log := log w @ [(INFO, Running_iteration 1 n),
                       (ERROR, Unexpected_error_during_execution capture_conflict)],
       io := io w @ [Stat f, Open_w out]\<rparr>"
  using assms
  by (simp add: run_analysis_def path_exists_def open_write_def trace_def range_pos
      run_iterations_first logging_def del: run_iterations.simps)

lemma run_analysis_log_unwritable:
  assumes "files w f \<noteq> None" and "write_fault w out = Some e"
  shows "run_analysis pf f n t out w =
     w\<lparr>log := log w @ [(ERROR, Error_writing_to_output_file e)],
       io := io w @ [Stat f, Open_w out]\<rparr>"
  using assms
  by (simp add: run_analysis_def path_exists_def open_write_def trace_def logging_def)

lemma instrument_code_parse_failure:
  assumes "read_fault w filename = None" and "files w filename = Some code"
    and "ast_parse pf code = Inl e"
  shows "instrument_code pf filename w = (Raised e, trace (Open_r filename) w)"
  using assms by (simp add: instrument_code_def open_read_def)

lemma instrument_code_success:
  assumes "read_fault w filename = None" and "files w filename = Some code"
    and "ast_parse pf code = Inr tree"
    and "write_fault w (fst (splitext filename) @ ''_instrumented.py'') = None"
  shows "instrument_code pf filename w =
     (Returned (Some (fst (splitext filename) @ ''_instrumented.py'')),
      w\<lparr>files := (files w)(fst (splitext filename) @ ''_instrumented.py'' \<mapsto>
                  ''import time'' @ [CHR 0x0A] @ ast_unparse pf (visit_Module tree)),
        log := log w @
          [(INFO, Instrumented_code_written_to (fst (splitext filename) @ ''_instrumented.py''))],
        io := io w @
          [Open_r filename, Open_w (fst (splitext filename) @ ''_instrumented.py'')]\<rparr>)"
  using assms
  by (simp add: instrument_code_def open_read_def open_write_def trace_def file_write_def
      logging_def Let_def)

lemma instrument_code_Some_cases:
  assumes "instrument_code pf filename w = (Returned (Some f), w')"
  shows "\<exists>code tree. read_fault w filename = None \<and> files w filename = Some code \<and>
           ast_parse pf code = Inr tree \<and>
           f = fst (splitext filename) @ ''_instrumented.py'' \<and> write_fault w f = None"
  using assms
  by (auto simp: instrument_code_def open_read_def open_write_def trace_def Let_def
      split: option.splits sum.splits exn.splits prod.splits)

lemma instrument_code_Some_files:
  assumes "instrument_code pf filename w = (Returned (Some f), w')"
  shows "\<exists>code tree. files w filename = Some code \<and> ast_parse pf code = Inr tree \<and>
           files w' f = Some (''import time'' @ [CHR 0x0A] @ ast_unparse pf (visit_Module tree))"
proof -
  from instrument_code_Some_cases [OF assms] obtain code tree where
    h: "read_fault w filename = None" "files w filename = Some code"
       "ast_parse pf code = Inr tree" "f = fst (splitext filename) @ ''_instrumented.py''"
       "write_fault w f = None"
    by blast
  from h(5) have "write_fault w (fst (splitext filename) @ ''_instrumented.py'') = None"
    by (simp add: h(4))
  from instrument_code_success [OF h(1) h(2) h(3) this] assms h(4)
  have "files w' f = Some (''import time'' @ [CHR 0x0A] @ ast_unparse pf (visit_Module tree))"
    by auto
  with h(2) h(3) show ?thesis by blast
qed

lemma example_instrument_t_py:
  "instrument_code example_platform ''t.py'' example_world =
     (Returned (Some ''t_instrumented.py''),
      example_world\<lparr>files := (files example_world)(''t_instrumented.py'' \<mapsto>
                        ''import time'' @ [CHR 0x0A] @ example_unparsed),
        log := [(INFO, Instrumented_code_written_to ''t_instrumented.py'')],
        io := [Open_r ''t.py'', Open_w ''t_instrumented.py'']\<rparr>)"
  using instrument_code_success [of example_world "''t.py''" "''def f(): pass''"
      example_platform example_tree]
  by (simp add: example_world_def example_platform_def splitext_t_py)

lemma main_target_missing:
  "files w (target_file a) = None \<Longrightarrow> main pf a w =
     (Exit 1, w\<lparr>log := log w @ [(ERROR, Target_file_not_found (target_file a))],
                io := io w @ [Stat (target_file a)]\<rparr>)"
  by (simp add: main_def path_exists_def trace_def logging_def)

lemma main_bad_iterations:
  "files w (target_file a) = Some c \<Longrightarrow> iterations a \<le> 0 \<Longrightarrow> main pf a w =
     (Exit 1, w\<lparr>log := log w @ [(ERROR, Number_of_iterations_must_be_greater_than_0)],
                io := io w @ [Stat (target_file a)]\<rparr>)"
  by (simp add: main_def path_exists_def trace_def logging_def)

lemma main_bad_threshold:
  "files w (target_file a) = Some c \<Longrightarrow> 0 < iterations a \<Longrightarrow>
   \<not> (float_le (Finite 0) (threshold a) \<and> float_le (threshold a) (Finite 1)) \<Longrightarrow>
   main pf a w =
     (Exit 1, w\<lparr>log := log w @ [(ERROR, Threshold_must_be_between_0_and_1)],
                io := io w @ [Stat (target_file a)]\<rparr>)"
  by (simp add: main_def path_exists_def trace_def logging_def)

lemma outside_unit:
  "(\<not> (float_le (Finite 0) t \<and> float_le t (Finite 1))) =
   (case t of Finite r \<Rightarrow> r < 0 \<or> 1 < r | _ \<Rightarrow> True)"
  by (cases t) auto


section \<open>The instrumenter\<close>

text \<open>
  C3. A function definition that the visitor handles gets exactly four new statements,
  one after the other at the head of its body and before every statement it had: the
  assignment to \<^verbatim>\<open>start_time\<close>, the assignment to \<^verbatim>\<open>end_time\<close>, the assignment of
  \<^verbatim>\<open>end_time - start_time\<close> to \<^verbatim>\<open>duration\<close>, and the expression statement whose call
  receives the text naming the function and the value of \<^verbatim>\<open>duration\<close>. The name, the
  parameters and the decorators stay.
\<close>

theorem visit_FunctionDef_splices_probe_first:
  "visit_FunctionDef name args body decorator_list =
     FunctionDef name args
       (Assign [Name ''start_time'' Store] (Call (Name ''time'' Load) [] [])
        # Assign [Name ''end_time'' Store] (Call (Name ''time'' Load) [] [])
        # Assign [Name ''duration'' Store]
            (BinOp (Name ''end_time'' Load) Sub (Name ''start_time'' Load))
        # Expr (Call (Attribute (Name ''print'' Load) ''print'' Load)
                  [Str (''Function '' @ name @ '' took: ''), Name ''duration'' Load] [])
        # body)
       decorator_list"
  by (simp add: visit_FunctionDef_def list_insert_def start_time_def end_time_def
      duration_def print_stmt_def)

text \<open>
  C2. The claim wants a probe in every function definition, nested ones included. For
  \<^verbatim>\<open>def f():\<close> holding \<^verbatim>\<open>def g(): pass\<close> the visitor probes \<open>f\<close> and returns without
  visiting its body, so \<open>g\<close> keeps the body \<^verbatim>\<open>pass\<close> and has no probe; a method of a
  class, reached through \<^verbatim>\<open>generic_visit\<close>, is probed.
\<close>

theorem nested_function_gets_no_probe:
  "visit_Module [FunctionDef ''f'' [] [FunctionDef ''g'' [] [Pass] []] []] =
     [FunctionDef ''f'' [] (probe ''f'' @ [FunctionDef ''g'' [] [Pass] []]) []]
   \<and> \<not> list_all all_probed
         (visit_Module [FunctionDef ''f'' [] [FunctionDef ''g'' [] [Pass] []] []])
   \<and> list_all all_probed
         (visit_Module [ClassDef ''C'' [] [FunctionDef ''m'' [''self''] [Pass] []] []])"
  by (simp add: visit_Module_def visit_FunctionDef_def list_insert_def probe_def
      start_time_def end_time_def duration_def print_stmt_def)




text \<open>
  C6. The claim wants a reported error and the result \<^verbatim>\<open>None\<close> when the file does not
  parse. \<^verbatim>\<open>ast.parse\<close> stands outside every \<^verbatim>\<open>try\<close> of \<open>instrument_code\<close>: the
  exception of the parser leaves the function, no value is returned and nothing is
  logged. Only this part of the claim holds: no file is written.
\<close>

theorem instrument_code_parse_failure_uncaught:
  assumes "read_fault w filename = None" and "files w filename = Some code"
    and "ast_parse pf code = Inl e"
  shows "fst (instrument_code pf filename w) = Raised e
       \<and> log (snd (instrument_code pf filename w)) = log w
       \<and> files (snd (instrument_code pf filename w)) = files w
       \<and> io (snd (instrument_code pf filename w)) = io w @ [Open_r filename]"
  by (simp add: instrument_code_parse_failure [OF assms] trace_def)

theorem instrument_code_parse_failure_uncaught_witness:
  "read_fault example_world ''bad.py'' = None
   \<and> files example_world ''bad.py'' = Some ''def f(:''
   \<and> ast_parse example_platform ''def f(:'' = Inl (SyntaxError ''invalid syntax'')
   \<and> fst (instrument_code example_platform ''bad.py'' example_world) =
       Raised (SyntaxError ''invalid syntax'')
   \<and> log (snd (instrument_code example_platform ''bad.py'' example_world)) = []
   \<and> files (snd (instrument_code example_platform ''bad.py'' example_world)) =
       files example_world"
  using instrument_code_parse_failure_uncaught [of example_world "''bad.py''" "''def f(:''"
      example_platform "SyntaxError ''invalid syntax''"]
  by (simp add: example_world_def example_platform_def)

text \<open>
  C7, as the specification has it, at the target \<^verbatim>\<open>a.txt\<close>: the artifact is
  \<^verbatim>\<open>a_instrumented.py\<close>, and the name that keeps the extension is \<^verbatim>\<open>a_instrumented.txt\<close>.
\<close>

theorem artifact_keeps_extension_counterexample:
  "fst (instrument_code example_platform ''a.txt'' example_world) =
     Returned (Some ''a_instrumented.py'')
   \<and> spec_artifact_name ''a.txt'' = ''a_instrumented.txt''
   \<and> fst (instrument_code example_platform ''a.txt'' example_world) \<noteq>
       Returned (Some (spec_artifact_name ''a.txt''))"
  using instrument_code_success [of example_world "''a.txt''" "''def f(): pass''"
      example_platform example_tree]
  by (simp add: example_world_def example_platform_def splitext_a_txt spec_artifact_name_def)

text \<open>
  C7, amended. The artifact's name is the target's path without its last extension
  (\<^verbatim>\<open>os.path.splitext\<close>), followed by \<^verbatim>\<open>_instrumented.py\<close>: the extension is always
  \<^verbatim>\<open>.py\<close>. What is cut off the path holds no \<^verbatim>\<open>/\<close>, so the artifact is in the directory
  of the target. The file of that name holds the new text whatever it held before.
\<close>

theorem artifact_named_with_py_extension:
  assumes "instrument_code pf filename w = (Returned (Some f), w')"
  shows "f = fst (splitext filename) @ ''_instrumented.py''
       \<and> (\<exists>ext. filename = fst (splitext filename) @ ext \<and> CHR ''/'' \<notin> set ext)
       \<and> (\<exists>code tree. files w filename = Some code \<and> ast_parse pf code = Inr tree \<and>
            files w' f =
              Some (''import time'' @ [CHR 0x0A] @ ast_unparse pf (visit_Module tree)))"
proof -
  from instrument_code_Some_cases [OF assms]
  have "f = fst (splitext filename) @ ''_instrumented.py''" by blast
  moreover have "\<exists>ext. filename = fst (splitext filename) @ ext \<and> CHR ''/'' \<notin> set ext"
    using splitext_join [of filename] splitext_ext_no_sep [of filename] by metis
  ultimately show ?thesis using instrument_code_Some_files [OF assms] by blast
qed

theorem artifact_named_with_py_extension_witness:
  "fst (instrument_code example_platform ''t.py'' example_world) =
     Returned (Some ''t_instrumented.py'')
   \<and> ''t_instrumented.py'' = fst (splitext ''t.py'') @ ''_instrumented.py''
   \<and> files (snd (instrument_code example_platform ''t.py'' example_world))
       ''t_instrumented.py'' = Some (''import time'' @ [CHR 0x0A] @ example_unparsed)"
proof -
  have h: "instrument_code example_platform ''t.py'' example_world =
      (Returned (Some ''t_instrumented.py''),
       snd (instrument_code example_platform ''t.py'' example_world))"
    by (simp add: example_instrument_t_py)
  from artifact_named_with_py_extension [OF h]
  have "''t_instrumented.py'' = fst (splitext ''t.py'') @ ''_instrumented.py''"
    by blast
  then show ?thesis by (simp add: example_instrument_t_py)
qed


section \<open>The harness\<close>

text \<open>
  C1. The claim wants the standard output of \<open>N\<close> child runs in the log. The call of
  \<open>subprocess_run\<close> in the loop passes \<^verbatim>\<open>capture_output=True\<close> together with
  \<^verbatim>\<open>stdout=outfile\<close> and \<^verbatim>\<open>stderr=subprocess.PIPE\<close>, which the library refuses before it
  starts a process. So for an artifact that exists, a count above 0 and a log that can
  be opened, whatever the child would do: the log is created empty, the first iteration
  is announced, the \<^verbatim>\<open>ValueError\<close> is logged as an unexpected error, the loop is left, and
  the trace gains the existence test and the opening of the log and no process.
\<close>

theorem run_analysis_aborts_at_first_iteration:
  assumes "files w f \<noteq> None" and "0 < n" and "write_fault w out = None"
  shows "run_analysis pf f n t out w =
     w\<lparr>files := (files w)(out \<mapsto> []),
       log := log w @ [(INFO, Running_iteration 1 n),
                       (ERROR, Unexpected_error_during_execution capture_conflict)],
       io := io w @ [Stat f, Open_w out]\<rparr>
   \<and> files (run_analysis pf f n t out w) out = Some []
   \<and> spawns (io (run_analysis pf f n t out w)) = spawns (io w)"
proof -
  have state: "run_analysis pf f n t out w =
     w\<lparr>files := (files w)(out \<mapsto> []),
       log := log w @ [(INFO, Running_iteration 1 n),
                       (ERROR, Unexpected_error_during_execution capture_conflict)],
       io := io w @ [Stat f, Open_w out]\<rparr>"
    by (rule run_analysis_first_iteration [OF assms])
  have "files (run_analysis pf f n t out w) out = Some []"
    by (simp add: state)
  moreover have "spawns (io (run_analysis pf f n t out w)) = spawns (io w)"
    by (simp add: state spawns_append)
  ultimately show ?thesis using state by blast
qed

theorem run_analysis_aborts_at_first_iteration_witness:
  "files example_world ''t.py'' \<noteq> None
   \<and> (0 :: int) < 3
   \<and> write_fault example_world ''timing_analysis.log'' = None
   \<and> child example_platform [''python'', ''t.py''] example_world = Some (0, [], [])
   \<and> files (run_analysis example_platform ''t.py'' 3 (Finite (1 / 20))
              ''timing_analysis.log'' example_world) ''timing_analysis.log'' = Some []
   \<and> log (run_analysis example_platform ''t.py'' 3 (Finite (1 / 20))
            ''timing_analysis.log'' example_world) =
       [(INFO, Running_iteration 1 3),
        (ERROR, Unexpected_error_during_execution capture_conflict)]
   \<and> io (run_analysis example_platform ''t.py'' 3 (Finite (1 / 20))
           ''timing_analysis.log'' example_world) =
       [Stat ''t.py'', Open_w ''timing_analysis.log'']
   \<and> spawns (io (run_analysis example_platform ''t.py'' 3 (Finite (1 / 20))
           ''timing_analysis.log'' example_world)) = []"
  using run_analysis_aborts_at_first_iteration [of example_world "''t.py''" 3
      "''timing_analysis.log''" example_platform "Finite (1 / 20)"]
  by (simp add: example_world_def example_platform_def)

text \<open>
  C8. Two calls of \<open>run_analysis\<close> that differ in the threshold alone end in the same
  state: the same files, the same log records and the same trace.
\<close>

theorem run_analysis_ignores_threshold:
  "run_analysis pf instrumented_file n t1 output_file w =
   run_analysis pf instrumented_file n t2 output_file w"
  by (simp add: run_analysis_def)

section \<open>The orchestrator\<close>

text \<open>
  C9. When the iteration count is at most 0, or the threshold is not within \<open>[0, 1]\<close>
  (a finite value below 0 or above 1, an infinity or a NaN), \<open>main\<close> ends with
  \<^verbatim>\<open>sys.exit(1)\<close> after one error record; the files are those of the start, and the one
  system call made is the existence test of the target: nothing is opened and no
  process is started.
\<close>

theorem invalid_configuration_rejected_before_io:
  assumes "iterations a \<le> 0 \<or>
     (case threshold a of Finite r \<Rightarrow> r < 0 \<or> 1 < r | _ \<Rightarrow> True)"
  shows "\<exists>m. main pf a w =
     (Exit 1, w\<lparr>log := log w @ [(ERROR, m)], io := io w @ [Stat (target_file a)]\<rparr>)"
proof (cases "files w (target_file a)")
  case None
  then show ?thesis using main_target_missing by blast
next
  case (Some c)
  show ?thesis
  proof (cases "iterations a \<le> 0")
    case True
    with Some show ?thesis using main_bad_iterations by blast
  next
    case False
    with assms have "case threshold a of Finite r \<Rightarrow> r < 0 \<or> 1 < r | _ \<Rightarrow> True"
      by blast
    then have "\<not> (float_le (Finite 0) (threshold a) \<and> float_le (threshold a) (Finite 1))"
      using outside_unit [of "threshold a"] by blast
    with Some False show ?thesis using main_bad_threshold [of w a c pf] by auto
  qed
qed

theorem invalid_configuration_rejected_before_io_witness:
  "iterations (example_args\<lparr>iterations := 0\<rparr>) \<le> 0
   \<and> (\<exists>m. main example_platform (example_args\<lparr>iterations := 0\<rparr>) example_world =
         (Exit 1, example_world\<lparr>log := [(ERROR, m)], io := [Stat ''t.py'']\<rparr>))
   \<and> threshold (example_args\<lparr>threshold := Finite 2\<rparr>) = Finite 2
   \<and> (\<exists>m. main example_platform (example_args\<lparr>threshold := Finite 2\<rparr>) example_world =
         (Exit 1, example_world\<lparr>log := [(ERROR, m)], io := [Stat ''t.py'']\<rparr>))"
  using invalid_configuration_rejected_before_io
      [of "example_args\<lparr>iterations := 0\<rparr>" example_platform example_world]
    invalid_configuration_rejected_before_io
      [of "example_args\<lparr>threshold := Finite 2\<rparr>" example_platform example_world]
  by (simp add: example_args_def example_world_def)

text \<open>
  C5. The claim wants a non-zero exit status after a failure of the harness. \<open>main\<close>
  tests the result of \<open>instrument_code\<close> and leaves with status 1 when it failed, but
  it does not look at what \<open>run_analysis\<close> did. For a valid configuration and a target
  that is instrumented, the harness logs an error (the log cannot be opened, or the
  first iteration is refused as in C1), and \<open>main\<close> then logs that the analysis is
  completed and ends with status 0.
\<close>

theorem main_finishes_after_harness_failure:
  assumes "files w (target_file a) = Some code" and "read_fault w (target_file a) = None"
    and "0 < iterations a"
    and "float_le (Finite 0) (threshold a)" and "float_le (threshold a) (Finite 1)"
    and "\<not> dependency_check a"
    and "ast_parse pf code = Inr tree"
    and "write_fault w (fst (splitext (target_file a)) @ ''_instrumented.py'') = None"
  shows "\<exists>w' ms m. main pf a w = (Finished, w') \<and> exit_status (fst (main pf a w)) = 0 \<and>
     log w' = log w @ ms @ [(ERROR, m), (INFO, Timing_attack_analysis_completed)]"
proof (cases "write_fault w (output_opt a)")
  case None
  with assms show ?thesis
    by (simp add: main_def path_exists_def trace_def logging_def instrument_code_success
        run_analysis_first_iteration Let_def)
next
  case (Some e)
  with assms show ?thesis
    by (simp add: main_def path_exists_def trace_def logging_def instrument_code_success
        run_analysis_log_unwritable Let_def)
qed

theorem main_finishes_after_harness_failure_witness:
  "files example_world (target_file example_args) = Some ''def f(): pass''
   \<and> read_fault example_world (target_file example_args) = None
   \<and> 0 < iterations example_args
   \<and> float_le (Finite 0) (threshold example_args)
   \<and> float_le (threshold example_args) (Finite 1)
   \<and> \<not> dependency_check example_args
   \<and> ast_parse example_platform ''def f(): pass'' = Inr example_tree
   \<and> write_fault example_world
       (fst (splitext (target_file example_args)) @ ''_instrumented.py'') = None
   \<and> (\<exists>w' ms m. main example_platform example_args example_world = (Finished, w') \<and>
         exit_status (fst (main example_platform example_args example_world)) = 0 \<and>
         log w' = log example_world @ ms @
           [(ERROR, m), (INFO, Timing_attack_analysis_completed)])"
  using main_finishes_after_harness_failure [of example_world example_args
      "''def f(): pass''" example_platform example_tree]
  by (simp add: example_world_def example_platform_def example_args_def)


end
